theory Spec2Isabelle
  imports Complex_Main "HOL-Library.Multiset"
begin

text \<open>
  A text adventure in C++: a player moves on a grid, fights the enemies placed on it and
  picks up items. This theory embeds the item and character classes, the pick-up and drop
  operations, the combat function, the random population of the board and the day and
  night block of the main loop, and states what holds of them.
\<close>

section \<open>Items (items.hpp, ItemsDB.h)\<close>

text \<open>
  The class hierarchy of items.hpp: \<open>Item\<close> is a concrete base class (it has a public
  constructor and no pure virtual member), \<open>Weapon\<close>, \<open>Armour\<close> and \<open>Ring\<close> derive from
  \<open>Item\<close>, and \<open>Shield\<close> derives from \<open>Armour\<close>. A value of type \<open>item\<close> is an object
  together with its dynamic class; the constructor arguments are in the order of the C++
  constructors (name, weight, then the class's own fields). Items are never mutated after
  construction, so a \<open>shared_ptr<Item>\<close> is modelled by the object it points to.
\<close>

datatype item =
    Item string int
  | Weapon string int int
  | Armour string int int int
  | Shield string int int int
  | Ring string int int int

text \<open>The member \<open>Item::weight\<close>, inherited by every class.\<close>

fun weight :: "item \<Rightarrow> int" where
  "weight (Item n w) = w"
| "weight (Weapon n w atk) = w"
| "weight (Armour n w df atk) = w"
| "weight (Shield n w df atk) = w"
| "weight (Ring n w hel str) = w"

text \<open>
  The members of the derived classes. A member is only ever read through a pointer whose
  static type declares it (\<open>weapon->attack_inc\<close> through a \<open>shared_ptr<Weapon>\<close>, and so
  on); on the other classes, where C++ has no such member, the accessor is 0.
  \<open>Ring::health\<close> is named \<open>health_ring\<close> here, \<open>health\<close> being the character's field.
\<close>

fun attack_inc :: "item \<Rightarrow> int" where
  "attack_inc (Weapon n w atk) = atk"
| "attack_inc _ = 0"

fun defence_inc :: "item \<Rightarrow> int" where
  "defence_inc (Armour n w df atk) = df"
| "defence_inc (Shield n w df atk) = df"
| "defence_inc _ = 0"

fun attack_dec :: "item \<Rightarrow> int" where
  "attack_dec (Armour n w df atk) = atk"
| "attack_dec (Shield n w df atk) = atk"
| "attack_dec _ = 0"

fun health_ring :: "item \<Rightarrow> int" where
  "health_ring (Ring n w hel str) = hel"
| "health_ring _ = 0"

fun strength_inc :: "item \<Rightarrow> int" where
  "strength_inc (Ring n w hel str) = str"
| "strength_inc _ = 0"

text \<open>
  \<open>dynamic_pointer_cast<T>(item)\<close>: the pointer itself when the object's dynamic class is
  \<open>T\<close> or derives from \<open>T\<close>, and the null pointer otherwise. A \<open>Shield\<close> is an \<open>Armour\<close>.
\<close>

fun dynamic_pointer_cast_Weapon :: "item \<Rightarrow> item option" where
  "dynamic_pointer_cast_Weapon (Weapon n w atk) = Some (Weapon n w atk)"
| "dynamic_pointer_cast_Weapon _ = None"

fun dynamic_pointer_cast_Armour :: "item \<Rightarrow> item option" where
  "dynamic_pointer_cast_Armour (Armour n w df atk) = Some (Armour n w df atk)"
| "dynamic_pointer_cast_Armour (Shield n w df atk) = Some (Shield n w df atk)"
| "dynamic_pointer_cast_Armour _ = None"

fun dynamic_pointer_cast_Shield :: "item \<Rightarrow> item option" where
  "dynamic_pointer_cast_Shield (Shield n w df atk) = Some (Shield n w df atk)"
| "dynamic_pointer_cast_Shield _ = None"

fun dynamic_pointer_cast_Ring :: "item \<Rightarrow> item option" where
  "dynamic_pointer_cast_Ring (Ring n w hel str) = Some (Ring n w hel str)"
| "dynamic_pointer_cast_Ring _ = None"

text \<open>The predefined items of ItemsDB.h.\<close>

definition Sword :: item where "Sword = Weapon ''Sword'' 10 10"
definition Dagger :: item where "Dagger = Weapon ''Dagger'' 5 5"
definition PlateArmor :: item where "PlateArmor = Armour ''Plate Armor'' 40 10 5"
definition LeatherArmor :: item where "LeatherArmor = Armour ''Leather Armor'' 20 5 0"
definition LargeShield :: item where "LargeShield = Shield ''Large Shield'' 30 10 5"
definition SmallShield :: item where "SmallShield = Shield ''Small Shield'' 10 5 0"
definition RingOfLife :: item where "RingOfLife = Ring ''Ring of Life'' 1 10 0"
definition RingOfStrength :: item where "RingOfStrength = Ring ''Ring of Strength'' 1 (- 10) 50"

section \<open>Characters (characters.hpp)\<close>

text \<open>
  The five classes derived from \<open>Character\<close>. Each constructor fixes the \<open>race\<close> string to
  the name of its class and nothing assigns the field later, so the one field \<open>race\<close>
  stands both for that string and for the dynamic class of the object, which is what
  \<open>dynamic_cast<Orc*>\<close> tests.
\<close>

datatype race = Human | Elf | Dwarf | Hobbit | Orc

text \<open>
  The fields of \<open>Character\<close>, and \<open>Orc::isNight\<close> (read and written for Orcs only). The
  \<open>int\<close> fields are unbounded integers: signed overflow is undefined in C++, and the game's
  values stay far from it. The two \<open>float\<close> chances are only ever compared with a roll;
  they are modelled as reals. The temporary \<open>item\<close> pointer of the class is never used by
  any member and is left out.
\<close>

record character =
  name :: string
  race :: race
  attack :: int
  attack_chance :: real
  defence :: int
  defence_chance :: real
  health :: int
  strength :: int
  weapon :: "item option"
  armor :: "item option"
  shield :: "item option"
  ring :: "item list"
  inventory :: "item list"
  isNight :: bool

text \<open>The constructor of \<open>Character\<close>: the slots start empty (null pointers, empty vectors).\<close>

definition Character_new ::
  "string \<Rightarrow> race \<Rightarrow> int \<Rightarrow> real \<Rightarrow> int \<Rightarrow> real \<Rightarrow> int \<Rightarrow> int \<Rightarrow> character" where
  "Character_new n r a ac d dc h s =
     \<lparr>name = n, race = r, attack = a, attack_chance = ac, defence = d, defence_chance = dc,
      health = h, strength = s, weapon = None, armor = None, shield = None, ring = [],
      inventory = [], isNight = False\<rparr>"

definition Human_new :: "string \<Rightarrow> character" where
  "Human_new n = Character_new n Human 30 (2 / 3) 20 (1 / 2) 60 100"

definition Elf_new :: "string \<Rightarrow> character" where
  "Elf_new n = Character_new n Elf 40 (1 / 1) 10 (1 / 4) 40 70"

definition Dwarf_new :: "string \<Rightarrow> character" where
  "Dwarf_new n = Character_new n Dwarf 30 (2 / 3) 20 (2 / 3) 50 130"

definition Hobbit_new :: "string \<Rightarrow> character" where
  "Hobbit_new n = Character_new n Hobbit 25 (1 / 3) 20 (2 / 3) 70 85"

definition Orc_new :: "string \<Rightarrow> character" where
  "Orc_new n = Character_new n Orc 25 0.25 10 0.25 50 130"

subsection \<open>Derived totals\<close>

text \<open>
  Each getter starts from a base field, adjusts it by the occupied slots and then runs a
  \<open>for\<close> loop over the ring vector that adds to the running total: a left fold.
\<close>

definition getCurrentWeight :: "character \<Rightarrow> int" where
  "getCurrentWeight c =
     (let total = 0;
          total = (case weapon c of Some w \<Rightarrow> total + weight w | None \<Rightarrow> total);
          total = (case armor c of Some a \<Rightarrow> total + weight a | None \<Rightarrow> total);
          total = (case shield c of Some s \<Rightarrow> total + weight s | None \<Rightarrow> total)
      in foldl (\<lambda>total r. total + weight r) total (ring c))"

definition getTotalAttack :: "character \<Rightarrow> int" where
  "getTotalAttack c =
     (let total = attack c;
          total = (case weapon c of Some w \<Rightarrow> total + attack_inc w | None \<Rightarrow> total);
          total = (case armor c of Some a \<Rightarrow> total - attack_dec a | None \<Rightarrow> total);
          total = (case shield c of Some s \<Rightarrow> total - attack_dec s | None \<Rightarrow> total)
      in foldl (\<lambda>total r. total + strength_inc r) total (ring c))"

definition getTotalDefence :: "character \<Rightarrow> int" where
  "getTotalDefence c =
     (let total = defence c;
          total = (case armor c of Some a \<Rightarrow> total + defence_inc a | None \<Rightarrow> total);
          total = (case shield c of Some s \<Rightarrow> total + defence_inc s | None \<Rightarrow> total)
      in total)"

definition getTotalStrength :: "character \<Rightarrow> int" where
  "getTotalStrength c = foldl (\<lambda>total r. total + strength_inc r) (strength c) (ring c)"

definition getTotalHealth :: "character \<Rightarrow> int" where
  "getTotalHealth c = foldl (\<lambda>total r. total + health_ring r) (health c) (ring c)"

subsection \<open>Picking up and dropping\<close>

text \<open>
  \<open>Character::pickUp\<close>: the weight check, then the chain of dynamic casts in the order of
  the source (Weapon, Armour, Shield, Ring), each branch returning. The result is the
  returned flag and the character afterwards.
\<close>

definition pickUp :: "item \<Rightarrow> character \<Rightarrow> bool \<times> character" where
  "pickUp it c =
     (if getCurrentWeight c + weight it > strength c then (False, c)
      else case dynamic_pointer_cast_Weapon it of
        Some w \<Rightarrow> (True, c\<lparr>weapon := Some w\<rparr>)
      | None \<Rightarrow>
     (case dynamic_pointer_cast_Armour it of
        Some a \<Rightarrow> (True, c\<lparr>armor := Some a, inventory := inventory c @ [it]\<rparr>)
      | None \<Rightarrow>
     (case dynamic_pointer_cast_Shield it of
        Some s \<Rightarrow> (True, c\<lparr>shield := Some s, inventory := inventory c @ [it]\<rparr>)
      | None \<Rightarrow>
     (case dynamic_pointer_cast_Ring it of
        Some r \<Rightarrow> (True, c\<lparr>ring := ring c @ [r], inventory := inventory c @ [it]\<rparr>)
      | None \<Rightarrow> (False, c)))))"

definition dropWeapon :: "character \<Rightarrow> character" where
  "dropWeapon c = (case weapon c of Some w \<Rightarrow> c\<lparr>weapon := None\<rparr> | None \<Rightarrow> c)"

definition dropArmour :: "character \<Rightarrow> character" where
  "dropArmour c = (case armor c of Some a \<Rightarrow> c\<lparr>armor := None\<rparr> | None \<Rightarrow> c)"

definition dropShield :: "character \<Rightarrow> character" where
  "dropShield c = (case shield c of Some s \<Rightarrow> c\<lparr>shield := None\<rparr> | None \<Rightarrow> c)"

text \<open>\<open>dropRing\<close> takes an \<open>int\<close> index; \<open>ring.erase(ring.begin() + index)\<close> removes one element.\<close>

definition dropRing :: "int \<Rightarrow> character \<Rightarrow> character" where
  "dropRing index c =
     (if index \<ge> 0 \<and> index < int (length (ring c))
      then c\<lparr>ring := take (nat index) (ring c) @ drop (Suc (nat index)) (ring c)\<rparr>
      else c)"

section \<open>Defence reactions (characters.cpp)\<close>

text \<open>
  \<open>successfulDef\<close> is declared in \<open>Character\<close> without \<open>virtual\<close>, and again in each
  derived class. A call through a \<open>Character*\<close> therefore binds to
  \<open>Character::successfulDef\<close>, whose body is empty; the bodies of the derived classes run
  only when called through a pointer of the derived type. Each function returns the
  defender afterwards; \<open>Orc::successfulDef\<close> reads \<open>isNight\<close> of the object it is called
  on, which at the call shape \<open>defender->successfulDef(attacker, defender)\<close> is the
  defender, and \<open>Hobbit::successfulDef\<close> takes the value of its \<open>rand()\<close> call as \<open>r\<close>.
\<close>

definition Character_successfulDef :: "character \<Rightarrow> character \<Rightarrow> character" where
  "Character_successfulDef attacker defender = defender"

definition Human_successfulDef :: "character \<Rightarrow> character \<Rightarrow> character" where
  "Human_successfulDef attacker defender = defender"

definition Elf_successfulDef :: "character \<Rightarrow> character \<Rightarrow> character" where
  "Elf_successfulDef attacker defender = defender\<lparr>health := health defender + 1\<rparr>"

definition Dwarf_successfulDef :: "character \<Rightarrow> character \<Rightarrow> character" where
  "Dwarf_successfulDef attacker defender = defender"

definition Hobbit_successfulDef :: "nat \<Rightarrow> character \<Rightarrow> character \<Rightarrow> character" where
  "Hobbit_successfulDef r attacker defender =
     (let d = defender\<lparr>health := health defender - int (r mod 6)\<rparr>
      in if health d < 0 then d\<lparr>health := 0\<rparr> else d)"

definition Orc_successfulDef :: "character \<Rightarrow> character \<Rightarrow> character" where
  "Orc_successfulDef attacker defender =
     (if \<not> isNight defender then
        (let temp = attack attacker - defence defender;
             temp = (if temp < 0 then 0 else temp);
             damageTaken = temp div 4;
             d = defender\<lparr>health := health defender - damageTaken\<rparr>
         in if health d < 0 then d\<lparr>health := 0\<rparr> else d)
      else defender\<lparr>health := health defender + 1\<rparr>)"

section \<open>Combat (main.cpp)\<close>

text \<open>
  \<open>attack(attacker, defender)\<close>, named \<open>attack_fn\<close> here, \<open>attack\<close> being the character's
  field. The two rolls \<open>(float)rand() / RAND_MAX\<close> are inputs;
  the second is drawn only when the first does not miss. The attacker is only read. The
  result is the defender afterwards and whether the line \<open>defeated\<close> was printed (the
  last \<open>if\<close> of the function, not reached after either early \<open>return\<close>). The defender is
  a \<open>Character*\<close>, so the defence reaction called is \<open>Character::successfulDef\<close>.
\<close>

definition attack_fn :: "real \<Rightarrow> real \<Rightarrow> character \<Rightarrow> character \<Rightarrow> character \<times> bool" where
  "attack_fn attackRoll defenceRoll attacker defender =
     (if attackRoll > attack_chance attacker then (defender, False)
      else if defenceRoll < defence_chance defender
        then (Character_successfulDef attacker defender, False)
      else
        (let d =
           (if getTotalAttack attacker > getTotalDefence defender then
              (let damage = getTotalAttack attacker - getTotalDefence defender;
                   d = defender\<lparr>health := health defender - damage\<rparr>;
                   d = (if health d < 0 then d\<lparr>health := 0\<rparr> else d);
                   d = (if health d > getTotalHealth d then d\<lparr>health := getTotalHealth d\<rparr>
                        else d)
               in d)
            else defender)
         in (d, getTotalHealth d \<le> 0)))"

text \<open>
  The combat of command \<open>j\<close> in \<open>main\<close>, once an enemy is on the player's square: the
  player attacks; if the enemy's total health is then at most 0 it is reported defeated
  and the enemy does not strike back; otherwise the enemy attacks and the player is
  reported dead if the player's total health is at most 0. The two objects are distinct.
\<close>

record fight =
  player_after :: character
  enemy_after :: character
  enemy_defeated :: bool
  player_died :: bool

definition case_j :: "real \<times> real \<Rightarrow> real \<times> real \<Rightarrow> character \<Rightarrow> character \<Rightarrow> fight" where
  "case_j rolls1 rolls2 pl en =
     (let en1 = fst (attack_fn (fst rolls1) (snd rolls1) pl en)
      in if getTotalHealth en1 \<le> 0
         then \<lparr>player_after = pl, enemy_after = en1, enemy_defeated = True,
               player_died = False\<rparr>
         else
           (let pl1 = fst (attack_fn (fst rolls2) (snd rolls2) en1 pl)
            in \<lparr>player_after = pl1, enemy_after = en1, enemy_defeated = False,
                player_died = (getTotalHealth pl1 \<le> 0)\<rparr>))"

section \<open>The board (board.hpp, board.cpp)\<close>

text \<open>
  Characters are shared between the enemy vector, the squares and the global \<open>player\<close>
  through pointers, and are mutated through them; a pointer is an address into a store of
  character objects. A square holds an enemy pointer, an item and a player pointer, each
  possibly null. The grid is a vector of \<open>height\<close> rows of \<open>width\<close> squares, each square
  an object of its own. The dimensions are natural numbers: with a negative one the
  constructor's \<open>resize\<close> throws and there is no board.
\<close>

type_synonym ptr = nat

type_synonym store = "ptr \<Rightarrow> character option"

record square =
  enemy :: "ptr option"
  item :: "item option"
  player :: "ptr option"

record Board =
  width :: nat
  height :: nat
  grid :: "square list list"

definition Board_new :: "nat \<Rightarrow> nat \<Rightarrow> Board" where
  "Board_new w h =
     \<lparr>width = w, height = h,
      grid = replicate h (replicate w \<lparr>enemy = None, item = None, player = None\<rparr>)\<rparr>"

text \<open>
  What the constructor establishes and nothing changes: the grid has \<open>height\<close> rows of
  \<open>width\<close> squares. \<open>grid[x][y]\<close> is read only at \<open>x < height\<close>, \<open>y < width\<close>.
\<close>

definition wf_board :: "Board \<Rightarrow> bool" where
  "wf_board b = (length (grid b) = height b \<and> list_all (\<lambda>row. length row = width b) (grid b))"

definition cell :: "Board \<Rightarrow> nat \<Rightarrow> nat \<Rightarrow> square" where
  "cell b x y = grid b ! x ! y"

definition set_cell :: "Board \<Rightarrow> nat \<Rightarrow> nat \<Rightarrow> square \<Rightarrow> Board" where
  "set_cell b x y sq = b\<lparr>grid := (grid b)[x := (grid b ! x)[y := sq] ]\<rparr>"

text \<open>
  The two \<open>while\<close> loops of \<open>populateBoard\<close>. \<open>rs\<close> is the sequence of values that the
  coming calls of \<open>rand()\<close> return; every retry takes two of them. A loop that needs more
  draws than \<open>rs\<close> holds has not finished: the result is \<open>None\<close>.
\<close>

fun enemy_retry :: "Board \<Rightarrow> nat \<Rightarrow> nat \<Rightarrow> nat list \<Rightarrow> (nat \<times> nat \<times> nat list) option" where
  "enemy_retry b x y rs =
     (if enemy (cell b x y) \<noteq> None then
        (case rs of
           r1 # r2 # rs' \<Rightarrow> enemy_retry b (r1 mod height b) (r2 mod width b) rs'
         | _ \<Rightarrow> None)
      else Some (x, y, rs))"

fun item_retry :: "Board \<Rightarrow> nat \<Rightarrow> nat \<Rightarrow> nat list \<Rightarrow> (nat \<times> nat \<times> nat list) option" where
  "item_retry b x y rs =
     (if enemy (cell b x y) \<noteq> None \<or> item (cell b x y) \<noteq> None then
        (case rs of
           r1 # r2 # rs' \<Rightarrow> item_retry b (r1 mod height b) (r2 mod width b) rs'
         | _ \<Rightarrow> None)
      else Some (x, y, rs))"

text \<open>The two \<open>for\<close> loops: one placement per element, in order.\<close>

fun place_enemies :: "ptr list \<Rightarrow> Board \<Rightarrow> nat list \<Rightarrow> (Board \<times> nat list) option" where
  "place_enemies [] b rs = Some (b, rs)"
| "place_enemies (enemyPointer # enemies) b rs =
     (case rs of
        r1 # r2 # rs' \<Rightarrow>
          (case enemy_retry b (r1 mod height b) (r2 mod width b) rs' of
             Some (x, y, rs'') \<Rightarrow>
               place_enemies enemies
                 (set_cell b x y ((cell b x y)\<lparr>enemy := Some enemyPointer\<rparr>)) rs''
           | None \<Rightarrow> None)
      | _ \<Rightarrow> None)"

fun place_items :: "item list \<Rightarrow> Board \<Rightarrow> nat list \<Rightarrow> (Board \<times> nat list) option" where
  "place_items [] b rs = Some (b, rs)"
| "place_items (itemPointer # items) b rs =
     (case rs of
        r1 # r2 # rs' \<Rightarrow>
          (case item_retry b (r1 mod height b) (r2 mod width b) rs' of
             Some (x, y, rs'') \<Rightarrow>
               place_items items
                 (set_cell b x y ((cell b x y)\<lparr>item := Some itemPointer\<rparr>)) rs''
           | None \<Rightarrow> None)
      | _ \<Rightarrow> None)"

text \<open>
  \<open>Board::populateBoard\<close>. \<open>srand(time(nullptr))\<close> makes the draws depend on the clock:
  they are the parameter \<open>rs\<close>, and the draws left over are returned with the board.
  \<open>rand() % height\<close> with a zero dimension is a division by zero, undefined in C++: no
  result either.
\<close>

definition populateBoard ::
  "ptr list \<Rightarrow> item list \<Rightarrow> Board \<Rightarrow> nat list \<Rightarrow> (Board \<times> nat list) option" where
  "populateBoard enemies items b rs =
     (if (enemies \<noteq> [] \<or> items \<noteq> []) \<and> (height b = 0 \<or> width b = 0) then None
      else case place_enemies enemies b rs of
             Some (b1, rs1) \<Rightarrow> place_items items b1 rs1
           | None \<Rightarrow> None)"

text \<open>
  The cells that hold an enemy, and those that hold an item, each listed once, in
  row-major order.
\<close>

definition enemy_cells :: "Board \<Rightarrow> (nat \<times> nat) list" where
  "enemy_cells b =
     filter (\<lambda>(x, y). enemy (cell b x y) \<noteq> None) (List.product [0..<height b] [0..<width b])"

definition item_cells :: "Board \<Rightarrow> (nat \<times> nat) list" where
  "item_cells b =
     filter (\<lambda>(x, y). item (cell b x y) \<noteq> None) (List.product [0..<height b] [0..<width b])"

text \<open>The enemy pointers and the items on the board, one entry per occupied cell.\<close>

definition enemies_on :: "Board \<Rightarrow> ptr list" where
  "enemies_on b =
     List.map_filter (\<lambda>(x, y). enemy (cell b x y)) (List.product [0..<height b] [0..<width b])"

definition items_on :: "Board \<Rightarrow> item list" where
  "items_on b =
     List.map_filter (\<lambda>(x, y). item (cell b x y)) (List.product [0..<height b] [0..<width b])"

section \<open>Day and night (characters.hpp, main.cpp)\<close>

definition setTimeOfDay :: "bool \<Rightarrow> character \<Rightarrow> character" where
  "setTimeOfDay night c =
     (let c = c\<lparr>isNight := night\<rparr>
      in if isNight c
         then c\<lparr>attack := 45, attack_chance := 1.0, defence := 25, defence_chance := 0.5\<rparr>
         else c\<lparr>attack := 25, attack_chance := 0.25, defence := 10, defence_chance := 0.25\<rparr>)"

text \<open>
  The nested \<open>for\<close> loops that follow a flip: every square's \<open>enemy\<close> pointer is read, and
  an object whose dynamic class is \<open>Orc\<close> is updated in the store. The \<open>player\<close> pointer
  of a square is not read.
\<close>

definition orc_update :: "bool \<Rightarrow> Board \<Rightarrow> nat \<Rightarrow> nat \<Rightarrow> store \<Rightarrow> store" where
  "orc_update night b r c st =
     (case enemy (cell b r c) of
        Some enemyPtr \<Rightarrow>
          (case st enemyPtr of
             Some ch \<Rightarrow> if race ch = Orc then st(enemyPtr \<mapsto> setTimeOfDay night ch) else st
           | None \<Rightarrow> st)
      | None \<Rightarrow> st)"

definition orcs_setTimeOfDay :: "bool \<Rightarrow> Board \<Rightarrow> store \<Rightarrow> store" where
  "orcs_setTimeOfDay night b st =
     fold (\<lambda>r. fold (\<lambda>c. orc_update night b r c) [0..<width b]) [0..<height b] st"

text \<open>
  The block at the end of each iteration of the main loop. \<open>commandCount\<close> starts at 0
  and only grows, so it is a natural number; \<open>night\<close> is the local \<open>isNight\<close> of \<open>main\<close>.
  The result is the new flag and the store.
\<close>

definition dayNightCycle :: "nat \<Rightarrow> bool \<Rightarrow> Board \<Rightarrow> store \<Rightarrow> bool \<times> store" where
  "dayNightCycle commandCount night b st =
     (if commandCount mod 10 < 5 then
        (if night then (False, orcs_setTimeOfDay False b st) else (night, st))
      else
        (if \<not> night then (True, orcs_setTimeOfDay True b st) else (night, st)))"

text \<open>The quadruple of stats that \<open>setTimeOfDay\<close> overwrites.\<close>

definition quadruple :: "character \<Rightarrow> int \<times> real \<times> int \<times> real" where
  "quadruple c = (attack c, attack_chance c, defence c, defence_chance c)"

text \<open>
  For the proofs about the loops: with respect to a character \<open>ch\<close> stored at \<open>q\<close>
  before the loops, the object at \<open>q\<close> is either still \<open>ch\<close> or already updated, and
  once updated it stays so.
\<close>

definition orc_pending :: "bool \<Rightarrow> character \<Rightarrow> ptr \<Rightarrow> store \<Rightarrow> bool" where
  "orc_pending night ch q st = (st q = Some ch \<or> st q = Some (setTimeOfDay night ch))"

definition orc_updated :: "bool \<Rightarrow> character \<Rightarrow> ptr \<Rightarrow> store \<Rightarrow> bool" where
  "orc_updated night ch q st = (st q = Some (setTimeOfDay night ch))"

subsection \<open>One iteration of the main loop\<close>

text \<open>
  The variables of \<open>main\<close> that an iteration reads or writes when the command is \<open>k\<close>
  (look); \<open>isNight_main\<close> is the local \<open>isNight\<close>, \<open>objects\<close> the store of characters
  and \<open>player_ptr\<close> the global \<open>player\<close>.
\<close>

record game =
  commandCount :: nat
  isNight_main :: bool
  board :: Board
  objects :: store
  player_ptr :: ptr
  playerRow :: nat
  playerColumn :: nat

text \<open>
  The iteration: the player pointer of the current square is cleared, the \<open>case 'k'\<close>
  prints the square and counts the command, the day and night block runs, and the player
  pointer is written back to the square. Printing is left out.
\<close>

definition iteration_k :: "game \<Rightarrow> game" where
  "iteration_k g =
     (let b = set_cell (board g) (playerRow g) (playerColumn g)
                ((cell (board g) (playerRow g) (playerColumn g))\<lparr>player := None\<rparr>);
          cmds = commandCount g + 1;
          flip = dayNightCycle cmds (isNight_main g) b (objects g);
          b = set_cell b (playerRow g) (playerColumn g)
                ((cell b (playerRow g) (playerColumn g))\<lparr>player := Some (player_ptr g)\<rparr>)
      in g\<lparr>commandCount := cmds, isNight_main := fst flip, board := b,
           objects := snd flip\<rparr>)"

section \<open>The totals as the specification writes them\<close>

text \<open>
  The four formulas of the specification, each over exactly the fields it names: a base
  stat, the slots and the ring collection. They are compared with the getters below.
\<close>

definition totalAttack_spec ::
  "int \<Rightarrow> item option \<Rightarrow> item option \<Rightarrow> item option \<Rightarrow> item list \<Rightarrow> int" where
  "totalAttack_spec baseAttack w a s rings =
     baseAttack + (case w of Some x \<Rightarrow> attack_inc x | None \<Rightarrow> 0)
       - (case a of Some x \<Rightarrow> attack_dec x | None \<Rightarrow> 0)
       - (case s of Some x \<Rightarrow> attack_dec x | None \<Rightarrow> 0)
       + sum_list (map strength_inc rings)"

definition totalDefence_spec :: "int \<Rightarrow> item option \<Rightarrow> item option \<Rightarrow> int" where
  "totalDefence_spec baseDefence a s =
     baseDefence + (case a of Some x \<Rightarrow> defence_inc x | None \<Rightarrow> 0)
       + (case s of Some x \<Rightarrow> defence_inc x | None \<Rightarrow> 0)"

definition totalStrength_spec :: "int \<Rightarrow> item list \<Rightarrow> int" where
  "totalStrength_spec baseStrength rings = baseStrength + sum_list (map strength_inc rings)"

definition totalHealth_spec :: "int \<Rightarrow> item list \<Rightarrow> int" where
  "totalHealth_spec baseHealth rings = baseHealth + sum_list (map health_ring rings)"

section \<open>Scenarios\<close>

text \<open>
  A game as \<open>main\<close> sets it up: the five enemies of \<open>main\<close> at the addresses 1 to 5 and
  the six items of \<open>main\<close>, placed on a board of width 4 and height 3 by \<open>populateBoard\<close>
  with the draws listed (the fourth enemy and the second item each need a retry); the
  player, at address 0, has chosen the Orc and stands on row 0, column 0. It is day and
  no command has been counted.
\<close>

definition game_board :: Board where
  "game_board = fst (the (populateBoard [1, 2, 3, 4, 5]
      [Sword, Dagger, LeatherArmor, PlateArmor, RingOfLife, RingOfStrength] (Board_new 4 3)
      [0, 1, 4, 6, 2, 3, 0, 1, 1, 0, 5, 5, 2, 0, 0, 1, 0, 2, 1, 1, 1, 3, 0, 3, 2, 2]))"

definition game_store :: store where
  "game_store = [0 \<mapsto> Orc_new ''Me'', 1 \<mapsto> Human_new ''Bob'', 2 \<mapsto> Elf_new ''Legolas'',
     3 \<mapsto> Dwarf_new ''Gimli'', 4 \<mapsto> Hobbit_new ''Frodo'', 5 \<mapsto> Orc_new ''Azog'']"

definition game_start :: game where
  "game_start = \<lparr>commandCount = 0, isNight_main = False, board = game_board,
     objects = game_store,
     player_ptr = 0, playerRow = 0, playerColumn = 0\<rparr>"

text \<open>The game after the player has looked at the square five times.\<close>

definition five_looks :: game where
  "five_looks = iteration_k (iteration_k (iteration_k (iteration_k (iteration_k game_start))))"

text \<open>
  Ann, a Human player who has picked up the Ring of Life, and one hit on a defender by
  the Elf Legolas: an attack roll of 1/2, which does not miss, and a defence roll of 9/10,
  above every defence chance.
\<close>

definition Ann :: character where
  "Ann = snd (pickUp RingOfLife (Human_new ''Ann''))"

definition hit :: "character \<Rightarrow> character" where
  "hit d = fst (attack_fn (1 / 2) (9 / 10) (Elf_new ''Legolas'') d)"

section \<open>Equipment totals\<close>

lemma foldl_add_sum_list:
  "foldl (\<lambda>total r. total + f r) a rs = (a::int) + sum_list (map f rs)"
  by (induction rs arbitrary: a) simp_all

lemma getCurrentWeight_sum:
  "getCurrentWeight c =
     (case weapon c of Some w \<Rightarrow> weight w | None \<Rightarrow> 0)
     + (case armor c of Some a \<Rightarrow> weight a | None \<Rightarrow> 0)
     + (case shield c of Some s \<Rightarrow> weight s | None \<Rightarrow> 0)
     + sum_list (map weight (ring c))"
  by (simp add: getCurrentWeight_def foldl_add_sum_list split: option.split)

lemma getTotalHealth_sum: "getTotalHealth c = health c + sum_list (map health_ring (ring c))"
  by (simp add: getTotalHealth_def foldl_add_sum_list)

text \<open>
  Claim C7. For every character each of the four getters returns the value of the
  specification's formula on the base stat, the three slots and the rings of that
  character: total attack is base attack plus the weapon's bonus, minus the armour's and
  the shield's penalties, plus the rings' strength bonuses; total defence is base defence
  plus the armour's and the shield's bonuses; total strength is base strength plus the
  rings' strength bonuses; total health is the health field plus the rings' health
  deltas. The right-hand sides take nothing but those fields, so the totals are functions
  of the base stats and the equipment, and computing them again gives the same values.
\<close>

theorem totals_refine_spec:
  "getTotalAttack c = totalAttack_spec (attack c) (weapon c) (armor c) (shield c) (ring c)
   \<and> getTotalDefence c = totalDefence_spec (defence c) (armor c) (shield c)
   \<and> getTotalStrength c = totalStrength_spec (strength c) (ring c)
   \<and> getTotalHealth c = totalHealth_spec (health c) (ring c)"
  by (simp add: getTotalAttack_def getTotalDefence_def getTotalStrength_def getTotalHealth_def
      totalAttack_spec_def totalDefence_spec_def totalStrength_spec_def totalHealth_spec_def
      foldl_add_sum_list split: option.split)

section \<open>Picking up\<close>

text \<open>
  Claim C8. When \<open>pickUp\<close> accepts an item, the inventory afterwards is the inventory
  before if the item is a Weapon, and the inventory before with the item appended if it
  is an Armour, a Shield or a Ring (a plain \<open>Item\<close> is never accepted).
\<close>

theorem pickUp_inventory:
  assumes "pickUp it c = (True, c')"
  shows "inventory c' = (case it of Weapon n w atk \<Rightarrow> inventory c | _ \<Rightarrow> inventory c @ [it])"
  using assms by (cases it) (auto simp: pickUp_def split: if_splits)

theorem pickUp_inventory_witness:
  "pickUp RingOfLife (Human_new ''Bob'')
     = (True, (Human_new ''Bob'')\<lparr>ring := [RingOfLife], inventory := [RingOfLife]\<rparr>)
   \<and> inventory ((Human_new ''Bob'')\<lparr>ring := [RingOfLife], inventory := [RingOfLife]\<rparr>)
     = inventory (Human_new ''Bob'') @ [RingOfLife]"
proof -
  have h: "pickUp RingOfLife (Human_new ''Bob'')
     = (True, (Human_new ''Bob'')\<lparr>ring := [RingOfLife], inventory := [RingOfLife]\<rparr>)"
    by (simp add: pickUp_def getCurrentWeight_def RingOfLife_def Human_new_def Character_new_def)
  show ?thesis using h pickUp_inventory [OF h] by (simp add: RingOfLife_def)
qed

text \<open>
  Claim C4, as the code has it. \<open>pickUp\<close> returns false exactly when the weights of the
  equipped weapon, armour, shield and rings plus the weight of the new item exceed the
  base strength field, or the item is a plain \<open>Item\<close>, of none of the four classes that
  \<open>pickUp\<close> recognises; and whenever it returns false the character is unchanged.
\<close>

theorem pickUp_rejects:
  "(\<not> fst (pickUp it c)) =
     ((case weapon c of Some w \<Rightarrow> weight w | None \<Rightarrow> 0)
        + (case armor c of Some a \<Rightarrow> weight a | None \<Rightarrow> 0)
        + (case shield c of Some s \<Rightarrow> weight s | None \<Rightarrow> 0)
        + sum_list (map weight (ring c)) + weight it > strength c
      \<or> (case it of Item n w \<Rightarrow> True | _ \<Rightarrow> False))
   \<and> (\<not> fst (pickUp it c) \<longrightarrow> snd (pickUp it c) = c)"
  by (cases it) (auto simp: pickUp_def getCurrentWeight_sum split: option.split)

text \<open>
  The example of the claim: strength 100, equipped weight 95, and a new item of weight 10.
\<close>

theorem pickUp_rejects_witness:
  "strength ((Human_new ''Bob'')\<lparr>armor := Some (Armour ''Lead Armor'' 95 1 1)\<rparr>) = 100
   \<and> getCurrentWeight ((Human_new ''Bob'')\<lparr>armor := Some (Armour ''Lead Armor'' 95 1 1)\<rparr>) = 95
   \<and> weight Sword = 10
   \<and> \<not> fst (pickUp Sword ((Human_new ''Bob'')\<lparr>armor := Some (Armour ''Lead Armor'' 95 1 1)\<rparr>))
   \<and> snd (pickUp Sword ((Human_new ''Bob'')\<lparr>armor := Some (Armour ''Lead Armor'' 95 1 1)\<rparr>))
       = (Human_new ''Bob'')\<lparr>armor := Some (Armour ''Lead Armor'' 95 1 1)\<rparr>"
  using pickUp_rejects [of Sword "(Human_new ''Bob'')\<lparr>armor := Some (Armour ''Lead Armor'' 95 1 1)\<rparr>"]
  by (simp add: getCurrentWeight_def Sword_def Human_new_def Character_new_def)

text \<open>
  The claim as stated fails: a rock of weight 1, a plain \<open>Item\<close>, is rejected by a
  character of strength 100 who carries nothing.
\<close>

theorem pickUp_plain_item_counterexample:
  "\<not> ((\<not> fst (pickUp (Item ''Rock'' 1) (Human_new ''Bob'')))
       = (getCurrentWeight (Human_new ''Bob'') + weight (Item ''Rock'' 1)
            > strength (Human_new ''Bob'')))"
  by (simp add: pickUp_def getCurrentWeight_def Human_new_def Character_new_def)

text \<open>
  Claim C2. The code at a Shield: the cast to \<open>Armour\<close> comes before the cast to \<open>Shield\<close>
  and succeeds on a Shield, so the Small Shield picked up by a character with empty slots
  is stored in the armour slot and the shield slot stays empty. The branch that assigns
  \<open>shield\<close> is never reached.
\<close>

theorem shield_lands_in_armor_slot:
  "pickUp SmallShield (Human_new ''Bob'')
     = (True, (Human_new ''Bob'')\<lparr>armor := Some SmallShield, inventory := [SmallShield]\<rparr>)
   \<and> shield (snd (pickUp SmallShield (Human_new ''Bob''))) = None"
  by (simp add: pickUp_def getCurrentWeight_def SmallShield_def Human_new_def Character_new_def)

text \<open>
  The slot that an accepted item of each class ends in: a Weapon in the weapon slot, an
  Armour in the armour slot, a Shield in the armour slot too, with the shield slot as it
  was, and a Ring at the end of the ring collection.
\<close>

lemma pickUp_slot:
  "pickUp (Weapon n w atk) c = (True, c') \<Longrightarrow> weapon c' = Some (Weapon n w atk)"
  "pickUp (Armour n w df atk) c = (True, c') \<Longrightarrow> armor c' = Some (Armour n w df atk)"
  "pickUp (Shield n w df atk) c = (True, c')
     \<Longrightarrow> armor c' = Some (Shield n w df atk) \<and> shield c' = shield c"
  "pickUp (Ring n w hel str) c = (True, c') \<Longrightarrow> ring c' = ring c @ [Ring n w hel str]"
  by (auto simp: pickUp_def split: if_splits)

section \<open>Dropping\<close>

text \<open>
  Claim C10. Each of the four drop operations leaves the inventory list as it was, so an
  item that was listed stays listed; \<open>dropWeapon\<close>, \<open>dropArmour\<close> and \<open>dropShield\<close> leave
  their slot empty, and \<open>dropRing\<close> removes the ring at a valid index from the ring
  collection and changes nothing at an invalid one.
\<close>

theorem drop_keeps_inventory:
  "inventory (dropWeapon c) = inventory c \<and> weapon (dropWeapon c) = None
   \<and> inventory (dropArmour c) = inventory c \<and> armor (dropArmour c) = None
   \<and> inventory (dropShield c) = inventory c \<and> shield (dropShield c) = None
   \<and> inventory (dropRing i c) = inventory c
   \<and> ring (dropRing i c) =
       (if 0 \<le> i \<and> i < int (length (ring c))
        then take (nat i) (ring c) @ drop (Suc (nat i)) (ring c) else ring c)"
  by (simp add: dropWeapon_def dropArmour_def dropShield_def dropRing_def split: option.split)

section \<open>Combat\<close>

text \<open>
  A successful defence leaves the defender as it was and prints no defeat line, whatever
  the defender's class: none of the reactions of the derived classes runs.
\<close>

lemma attack_defence_success_unchanged:
  assumes "\<not> ar > attack_chance a" "dr < defence_chance d"
  shows "attack_fn ar dr a d = (d, False)"
  using assms by (simp add: attack_fn_def Character_successfulDef_def)

lemma attack_miss_unchanged:
  assumes "ar > attack_chance a"
  shows "attack_fn ar dr a d = (d, False)"
  using assms by (simp add: attack_fn_def)

text \<open>
  Claim C1. The code at the claim's example: Bob, a Human, attacks Legolas, an Elf of
  health 40, with an attack roll of 0 (no miss) and a defence roll of 0, below the Elf's
  defence chance. The reaction that runs is \<open>Character::successfulDef\<close>, and the Elf's
  health is 40 afterwards; \<open>Elf::successfulDef\<close>, which the call does not reach, gives 41.
\<close>

theorem elf_defence_success_no_heal:
  "health (Elf_new ''Legolas'') = 40
   \<and> 0 < defence_chance (Elf_new ''Legolas'')
   \<and> health (fst (attack_fn 0 0 (Human_new ''Bob'') (Elf_new ''Legolas''))) = 40
   \<and> health (Elf_successfulDef (Human_new ''Bob'') (Elf_new ''Legolas'')) = 41"
  by (simp add: attack_fn_def Character_successfulDef_def Elf_successfulDef_def
      Human_new_def Elf_new_def Character_new_def)

text \<open>
  Claim C5. The code at a defender whose rings sum to a negative health delta: Ann, a
  Human of health 60 who has picked up the Ring of Strength (health delta -10), is hit by
  the Elf Legolas with neither a miss nor a successful defence. Total attack exceeds
  total defence by 20. The health field goes to 40, and the cap then compares it with
  \<open>getTotalHealth\<close>, which is computed from that same field as 40 - 10 = 30, and lowers it
  to 30: 30 is subtracted, not 20, and the health of 30 exceeds the total health of 20
  that the character has afterwards.
\<close>

theorem negative_ring_hit_subtracts_more:
  "health (snd (pickUp RingOfStrength (Human_new ''Ann''))) = 60
   \<and> getTotalAttack (Elf_new ''Legolas'')
       - getTotalDefence (snd (pickUp RingOfStrength (Human_new ''Ann''))) = 20
   \<and> health (fst (attack_fn (1 / 2) (9 / 10) (Elf_new ''Legolas'')
                 (snd (pickUp RingOfStrength (Human_new ''Ann''))))) = 30
   \<and> getTotalHealth (fst (attack_fn (1 / 2) (9 / 10) (Elf_new ''Legolas'')
                 (snd (pickUp RingOfStrength (Human_new ''Ann''))))) = 20"
  by (simp add: pickUp_def getCurrentWeight_def attack_fn_def getTotalAttack_def
      getTotalDefence_def getTotalHealth_def RingOfStrength_def Human_new_def Elf_new_def
      Character_new_def Let_def)

text \<open>
  What does hold of the damage branch: a blocked attack leaves the defender as it was;
  with rings whose health deltas sum to at least 0 the damage is subtracted, the result
  floored at 0, and the health does not exceed the total health; with a negative sum the
  sum is added once more.
\<close>

lemma attack_blocked_unchanged:
  assumes "\<not> ar > attack_chance a" "\<not> dr < defence_chance d"
    "getTotalAttack a \<le> getTotalDefence d"
  shows "fst (attack_fn ar dr a d) = d"
  using assms by (simp add: attack_fn_def)

lemma attack_damage_nonneg_rings:
  assumes "\<not> ar > attack_chance a" "\<not> dr < defence_chance d"
    "getTotalAttack a > getTotalDefence d" "0 \<le> sum_list (map health_ring (ring d))"
  shows "fst (attack_fn ar dr a d)
           = d\<lparr>health := max 0 (health d - (getTotalAttack a - getTotalDefence d))\<rparr>"
    and "health (fst (attack_fn ar dr a d)) \<le> getTotalHealth (fst (attack_fn ar dr a d))"
  using assms by (auto simp: attack_fn_def Let_def getTotalHealth_sum max_def)

lemma attack_damage_neg_rings:
  assumes "\<not> ar > attack_chance a" "\<not> dr < defence_chance d"
    "getTotalAttack a > getTotalDefence d" "sum_list (map health_ring (ring d)) < 0"
  shows "health (fst (attack_fn ar dr a d))
           = max 0 (health d - (getTotalAttack a - getTotalDefence d))
             + sum_list (map health_ring (ring d))"
  using assms by (auto simp: attack_fn_def Let_def getTotalHealth_sum max_def)

text \<open>
  What the three defeat checks of the code test: \<open>getTotalHealth\<close>, the health field
  plus the health deltas of the equipped rings, and not the health field, which is what
  the damage branch floors at 0. \<open>attack\<close> prints the defeat line exactly when neither the
  miss nor the defence branch returned early and that sum is at most 0 for the defender
  afterwards; in \<open>main\<close> the enemy is reported defeated after the player's attack exactly
  when the sum is at most 0 for the enemy, and the player is reported dead after the
  enemy's attack, which happens when the enemy was not defeated, exactly when the sum is
  at most 0 for the player.
\<close>

lemma defeat_checks_test_total_health:
  "snd (attack_fn ar dr a d) =
     (\<not> ar > attack_chance a \<and> \<not> dr < defence_chance d
      \<and> health (fst (attack_fn ar dr a d))
          + sum_list (map health_ring (ring (fst (attack_fn ar dr a d)))) \<le> 0)
   \<and> enemy_defeated (case_j r1 r2 pl en) =
       (health (enemy_after (case_j r1 r2 pl en))
          + sum_list (map health_ring (ring (enemy_after (case_j r1 r2 pl en)))) \<le> 0)
   \<and> player_died (case_j r1 r2 pl en) =
       (\<not> enemy_defeated (case_j r1 r2 pl en)
        \<and> health (player_after (case_j r1 r2 pl en))
          + sum_list (map health_ring (ring (player_after (case_j r1 r2 pl en)))) \<le> 0)"
  by (simp add: case_j_def attack_fn_def Let_def getTotalHealth_sum)

text \<open>
  With rings whose health deltas sum to more than 0, a defender whose health field is
  not negative is never reported defeated by \<open>attack\<close>, whatever the rolls and the
  attacker: the field stays at 0 or above and the rings stay on, so the same holds of
  every later attack.
\<close>

lemma positive_rings_never_defeated:
  assumes "0 \<le> health d" "0 < sum_list (map health_ring (ring d))"
  shows "\<not> snd (attack_fn ar dr a d)"
    and "0 \<le> health (fst (attack_fn ar dr a d))"
    and "ring (fst (attack_fn ar dr a d)) = ring d"
  using assms
  by (auto simp: attack_fn_def Character_successfulDef_def Let_def getTotalHealth_sum)

lemma Ann_eq: "Ann = (Human_new ''Ann'')\<lparr>ring := [RingOfLife], inventory := [RingOfLife]\<rparr>"
  by (simp add: Ann_def pickUp_def getCurrentWeight_def RingOfLife_def Human_new_def
      Character_new_def)

text \<open>
  Claim C3. The code at a defender who wears a ring with a positive health delta: Ann, a
  Human player of health 60, has picked up the Ring of Life (health delta +10). Two hits
  by the Elf Legolas, of 20 each, leave her health field at 20, and the third brings it
  to 0. The field is then at most 0, and she is not reported defeated: her total health
  is 10, so \<open>attack\<close> does not print the defeat line, and \<open>main\<close>, where she had first
  attacked and missed, does not report her dead.
\<close>

theorem ring_of_life_player_not_defeated:
  "health (hit (hit Ann)) = 20
   \<and> health (hit (hit (hit Ann))) = 0
   \<and> getTotalHealth (hit (hit (hit Ann))) = 10
   \<and> \<not> snd (attack_fn (1 / 2) (9 / 10) (Elf_new ''Legolas'') (hit (hit Ann)))
   \<and> health (player_after
         (case_j (1, 0) (1 / 2, 9 / 10) (hit (hit Ann)) (Elf_new ''Legolas''))) = 0
   \<and> \<not> player_died (case_j (1, 0) (1 / 2, 9 / 10) (hit (hit Ann)) (Elf_new ''Legolas''))"
  by (simp add: Ann_eq hit_def case_j_def attack_fn_def getTotalAttack_def getTotalDefence_def
      getTotalHealth_def RingOfLife_def Human_new_def Elf_new_def Character_new_def Let_def)

section \<open>Populating the board\<close>

declare enemy_retry.simps [simp del] item_retry.simps [simp del]

lemma wf_Board_new: "wf_board (Board_new w h)"
  by (simp add: wf_board_def Board_new_def list_all_length)

lemma item_cells_Board_new: "item_cells (Board_new w h) = []"
  by (auto simp: item_cells_def Board_new_def cell_def filter_empty_conv)

lemma set_cell_dims [simp]:
  "height (set_cell b x y sq) = height b" "width (set_cell b x y sq) = width b"
  by (simp_all add: set_cell_def)

lemma wf_set_cell: "wf_board b \<Longrightarrow> wf_board (set_cell b x y sq)"
proof -
  assume wf: "wf_board b"
  have "length (((grid b)[x := (grid b ! x)[y := sq] ]) ! n) = width b" if "n < height b" for n
    using wf that by (cases "n = x") (simp_all add: wf_board_def list_all_length)
  with wf show ?thesis
    by (simp add: wf_board_def set_cell_def list_all_length)
qed

lemma cell_set_cell:
  assumes "wf_board b" "x < height b" "y < width b"
  shows "cell (set_cell b x y sq) x' y' = (if x' = x \<and> y' = y then sq else cell b x' y')"
  using assms
  by (auto simp: cell_def set_cell_def wf_board_def list_all_length nth_list_update)

lemma set_enemy_cells:
  "set (enemy_cells b) = {(x, y). x < height b \<and> y < width b \<and> enemy (cell b x y) \<noteq> None}"
  by (auto simp: enemy_cells_def)

lemma set_item_cells:
  "set (item_cells b) = {(x, y). x < height b \<and> y < width b \<and> item (cell b x y) \<noteq> None}"
  by (auto simp: item_cells_def)

lemma distinct_enemy_cells: "distinct (enemy_cells b)"
  by (simp add: enemy_cells_def distinct_product)

lemma distinct_item_cells: "distinct (item_cells b)"
  by (simp add: item_cells_def distinct_product)

lemma length_enemy_cells: "length (enemy_cells b) = card (set (enemy_cells b))"
  by (simp add: distinct_card distinct_enemy_cells)

lemma length_item_cells: "length (item_cells b) = card (set (item_cells b))"
  by (simp add: distinct_card distinct_item_cells)

lemma items_on_item_cells:
  "items_on b = map (\<lambda>(x, y). the (item (cell b x y))) (item_cells b)"
proof -
  have "(\<lambda>p. (case p of (x, y) \<Rightarrow> item (cell b x y)) \<noteq> None)
          = (\<lambda>(x, y). item (cell b x y) \<noteq> None)"
    by auto
  then show ?thesis
    by (simp add: items_on_def item_cells_def List.map_filter_def comp_def case_prod_unfold)
qed

text \<open>The loops return a cell of the board that is free in the sense they test.\<close>

lemma enemy_retry_free:
  assumes "enemy_retry b x y rs = Some (x', y', rs')" "x < height b" "y < width b"
  shows "x' < height b \<and> y' < width b \<and> enemy (cell b x' y') = None"
  using assms
proof (induction b x y rs rule: enemy_retry.induct)
  case (1 b x y rs)
  show ?case
  proof (cases "enemy (cell b x y) \<noteq> None")
    case False
    with "1.prems" show ?thesis by (simp add: enemy_retry.simps)
  next
    case True
    with "1.prems"(1) obtain r1 r2 rest where rs: "rs = r1 # r2 # rest"
      and *: "enemy_retry b (r1 mod height b) (r2 mod width b) rest = Some (x', y', rs')"
      by (subst (asm) enemy_retry.simps) (auto split: list.splits)
    from "1.prems"(2,3) have pos: "r1 mod height b < height b" "r2 mod width b < width b"
      by auto
    from "1.IH"[OF True rs refl * pos] show ?thesis .
  qed
qed

lemma item_retry_free:
  assumes "item_retry b x y rs = Some (x', y', rs')" "x < height b" "y < width b"
  shows "x' < height b \<and> y' < width b \<and> enemy (cell b x' y') = None
         \<and> item (cell b x' y') = None"
  using assms
proof (induction b x y rs rule: item_retry.induct)
  case (1 b x y rs)
  show ?case
  proof (cases "enemy (cell b x y) \<noteq> None \<or> item (cell b x y) \<noteq> None")
    case False
    with "1.prems" show ?thesis by (simp add: item_retry.simps)
  next
    case True
    with "1.prems"(1) obtain r1 r2 rest where rs: "rs = r1 # r2 # rest"
      and *: "item_retry b (r1 mod height b) (r2 mod width b) rest = Some (x', y', rs')"
      by (subst (asm) item_retry.simps) (auto split: list.splits)
    from "1.prems"(2,3) have pos: "r1 mod height b < height b" "r2 mod width b < width b"
      by auto
    from "1.IH"[OF True rs refl * pos] show ?thesis .
  qed
qed

text \<open>Filling one slot of one free cell: the cells and the occupants afterwards.\<close>

lemma map_filter_cong_set:
  "(\<And>p. p \<in> set ps \<Longrightarrow> g p = f p) \<Longrightarrow> List.map_filter g ps = List.map_filter f ps"
  by (induction ps) (simp_all split: option.split)

lemma mset_map_filter_fill:
  assumes "distinct ps" "p0 \<in> set ps" "f p0 = None"
    "\<And>p. p \<in> set ps \<Longrightarrow> g p = (if p = p0 then Some e else f p)"
  shows "mset (List.map_filter g ps) = add_mset e (mset (List.map_filter f ps))"
  using assms
proof (induction ps)
  case Nil
  then show ?case by simp
next
  case (Cons p ps)
  show ?case
  proof (cases "p = p0")
    case True
    with Cons.prems(1) have "p0 \<notin> set ps" by simp
    with Cons.prems(4) have "\<And>q. q \<in> set ps \<Longrightarrow> g q = f q" by auto
    then have "List.map_filter g ps = List.map_filter f ps" by (rule map_filter_cong_set)
    with True Cons.prems(3,4) show ?thesis by simp
  next
    case False
    with Cons.prems have "mset (List.map_filter g ps) = add_mset e (mset (List.map_filter f ps))"
      by (intro Cons.IH) auto
    moreover from False Cons.prems(4) have "g p = f p" by simp
    ultimately show ?thesis by (simp split: option.split)
  qed
qed

lemma enemy_cells_place:
  assumes "wf_board b" "x < height b" "y < width b" "enemy (cell b x y) = None"
  shows "set (enemy_cells (set_cell b x y ((cell b x y)\<lparr>enemy := Some e\<rparr>)))
           = insert (x, y) (set (enemy_cells b))"
    and "set (item_cells (set_cell b x y ((cell b x y)\<lparr>enemy := Some e\<rparr>)))
           = set (item_cells b)"
  using assms by (auto simp: set_enemy_cells set_item_cells cell_set_cell)

lemma item_cells_place:
  assumes "wf_board b" "x < height b" "y < width b" "item (cell b x y) = None"
  shows "set (item_cells (set_cell b x y ((cell b x y)\<lparr>item := Some i\<rparr>)))
           = insert (x, y) (set (item_cells b))"
    and "set (enemy_cells (set_cell b x y ((cell b x y)\<lparr>item := Some i\<rparr>)))
           = set (enemy_cells b)"
  using assms by (auto simp: set_enemy_cells set_item_cells cell_set_cell)

lemma enemies_on_place:
  assumes "wf_board b" "x < height b" "y < width b" "enemy (cell b x y) = None"
  shows "mset (enemies_on (set_cell b x y ((cell b x y)\<lparr>enemy := Some e\<rparr>)))
           = add_mset e (mset (enemies_on b))"
    and "items_on (set_cell b x y ((cell b x y)\<lparr>enemy := Some e\<rparr>)) = items_on b"
proof -
  let ?b1 = "set_cell b x y ((cell b x y)\<lparr>enemy := Some e\<rparr>)"
  let ?ps = "List.product [0..<height b] [0..<width b]"
  have "mset (List.map_filter (\<lambda>(x, y). enemy (cell ?b1 x y)) ?ps)
          = add_mset e (mset (List.map_filter (\<lambda>(x, y). enemy (cell b x y)) ?ps))"
  proof (rule mset_map_filter_fill[where ?p0.0 = "(x, y)"])
    show "distinct ?ps" by (simp add: distinct_product)
    show "(x, y) \<in> set ?ps" using assms(2,3) by simp
    show "(case (x, y) of (x, y) \<Rightarrow> enemy (cell b x y)) = None" using assms(4) by simp
    show "(case p of (x, y) \<Rightarrow> enemy (cell ?b1 x y))
            = (if p = (x, y) then Some e else (case p of (x, y) \<Rightarrow> enemy (cell b x y)))"
      if "p \<in> set ?ps" for p
      using that assms(1-3) by (auto simp: cell_set_cell split: if_splits)
  qed
  then show "mset (enemies_on ?b1) = add_mset e (mset (enemies_on b))"
    by (simp add: enemies_on_def)
  have "List.map_filter (\<lambda>(x, y). item (cell ?b1 x y)) ?ps
          = List.map_filter (\<lambda>(x, y). item (cell b x y)) ?ps"
    by (rule map_filter_cong_set) (use assms(1-3) in \<open>auto simp: cell_set_cell split: if_splits\<close>)
  then show "items_on ?b1 = items_on b" by (simp add: items_on_def)
qed

lemma items_on_place:
  assumes "wf_board b" "x < height b" "y < width b" "item (cell b x y) = None"
  shows "mset (items_on (set_cell b x y ((cell b x y)\<lparr>item := Some i\<rparr>)))
           = add_mset i (mset (items_on b))"
    and "enemies_on (set_cell b x y ((cell b x y)\<lparr>item := Some i\<rparr>)) = enemies_on b"
proof -
  let ?b1 = "set_cell b x y ((cell b x y)\<lparr>item := Some i\<rparr>)"
  let ?ps = "List.product [0..<height b] [0..<width b]"
  have "mset (List.map_filter (\<lambda>(x, y). item (cell ?b1 x y)) ?ps)
          = add_mset i (mset (List.map_filter (\<lambda>(x, y). item (cell b x y)) ?ps))"
  proof (rule mset_map_filter_fill[where ?p0.0 = "(x, y)"])
    show "distinct ?ps" by (simp add: distinct_product)
    show "(x, y) \<in> set ?ps" using assms(2,3) by simp
    show "(case (x, y) of (x, y) \<Rightarrow> item (cell b x y)) = None" using assms(4) by simp
    show "(case p of (x, y) \<Rightarrow> item (cell ?b1 x y))
            = (if p = (x, y) then Some i else (case p of (x, y) \<Rightarrow> item (cell b x y)))"
      if "p \<in> set ?ps" for p
      using that assms(1-3) by (auto simp: cell_set_cell split: if_splits)
  qed
  then show "mset (items_on ?b1) = add_mset i (mset (items_on b))"
    by (simp add: items_on_def)
  have "List.map_filter (\<lambda>(x, y). enemy (cell ?b1 x y)) ?ps
          = List.map_filter (\<lambda>(x, y). enemy (cell b x y)) ?ps"
    by (rule map_filter_cong_set) (use assms(1-3) in \<open>auto simp: cell_set_cell split: if_splits\<close>)
  then show "enemies_on ?b1 = enemies_on b" by (simp add: enemies_on_def)
qed

text \<open>The first loop: every enemy of the list gets a cell that held no enemy.\<close>

lemma place_enemies_inv:
  assumes "place_enemies es b rs = Some (b', rs')" "wf_board b"
    "es \<noteq> [] \<longrightarrow> 0 < height b \<and> 0 < width b"
  shows "wf_board b' \<and> height b' = height b \<and> width b' = width b
         \<and> length (enemy_cells b') = length (enemy_cells b) + length es
         \<and> set (item_cells b') = set (item_cells b)
         \<and> mset (enemies_on b') = mset (enemies_on b) + mset es
         \<and> items_on b' = items_on b"
  using assms
proof (induction es arbitrary: b rs)
  case Nil
  then show ?case by simp
next
  case (Cons e es)
  from Cons.prems(3) have pos: "0 < height b" "0 < width b" by auto
  from Cons.prems(1) obtain r1 r2 rest x y rs1 where
    rs: "rs = r1 # r2 # rest"
    and retry: "enemy_retry b (r1 mod height b) (r2 mod width b) rest = Some (x, y, rs1)"
    and rec: "place_enemies es (set_cell b x y ((cell b x y)\<lparr>enemy := Some e\<rparr>)) rs1
                = Some (b', rs')"
    by (auto split: list.splits option.splits)
  let ?b1 = "set_cell b x y ((cell b x y)\<lparr>enemy := Some e\<rparr>)"
  from enemy_retry_free[OF retry] pos
  have free: "x < height b" "y < width b" "enemy (cell b x y) = None" by auto
  have wf1: "wf_board ?b1" using Cons.prems(2) by (rule wf_set_cell)
  have "(x, y) \<notin> set (enemy_cells b)" using free by (simp add: set_enemy_cells)
  then have len1: "length (enemy_cells ?b1) = Suc (length (enemy_cells b))"
    by (simp add: length_enemy_cells enemy_cells_place(1)[OF Cons.prems(2) free])
  have it1: "set (item_cells ?b1) = set (item_cells b)"
    by (rule enemy_cells_place(2)[OF Cons.prems(2) free])
  note on1 = enemies_on_place[OF Cons.prems(2) free, of e]
  have dims1: "es \<noteq> [] \<longrightarrow> 0 < height ?b1 \<and> 0 < width ?b1" using pos by simp
  from Cons.IH[OF rec wf1 dims1] len1 it1 on1 show ?case by auto
qed

text \<open>The second loop: every item of the list gets a cell that held no enemy and no item.\<close>

lemma place_items_inv:
  assumes "place_items is b rs = Some (b', rs')" "wf_board b"
    "is \<noteq> [] \<longrightarrow> 0 < height b \<and> 0 < width b"
    "set (enemy_cells b) \<inter> set (item_cells b) = {}"
  shows "wf_board b' \<and> height b' = height b \<and> width b' = width b
         \<and> length (item_cells b') = length (item_cells b) + length is
         \<and> set (enemy_cells b') = set (enemy_cells b)
         \<and> set (enemy_cells b') \<inter> set (item_cells b') = {}
         \<and> mset (items_on b') = mset (items_on b) + mset is
         \<and> enemies_on b' = enemies_on b"
  using assms
proof (induction "is" arbitrary: b rs)
  case Nil
  then show ?case by simp
next
  case (Cons i "is")
  from Cons.prems(3) have pos: "0 < height b" "0 < width b" by auto
  from Cons.prems(1) obtain r1 r2 rest x y rs1 where
    rs: "rs = r1 # r2 # rest"
    and retry: "item_retry b (r1 mod height b) (r2 mod width b) rest = Some (x, y, rs1)"
    and rec: "place_items is (set_cell b x y ((cell b x y)\<lparr>item := Some i\<rparr>)) rs1
                = Some (b', rs')"
    by (auto split: list.splits option.splits)
  let ?b1 = "set_cell b x y ((cell b x y)\<lparr>item := Some i\<rparr>)"
  from item_retry_free[OF retry] pos
  have free: "x < height b" "y < width b" "item (cell b x y) = None"
    and noen: "enemy (cell b x y) = None" by auto
  have wf1: "wf_board ?b1" using Cons.prems(2) by (rule wf_set_cell)
  have notin: "(x, y) \<notin> set (item_cells b)" "(x, y) \<notin> set (enemy_cells b)"
    using free noen by (simp_all add: set_enemy_cells set_item_cells)
  have it1: "set (item_cells ?b1) = insert (x, y) (set (item_cells b))"
    by (rule item_cells_place(1)[OF Cons.prems(2) free])
  have en1: "set (enemy_cells ?b1) = set (enemy_cells b)"
    by (rule item_cells_place(2)[OF Cons.prems(2) free])
  from notin(1) have len1: "length (item_cells ?b1) = Suc (length (item_cells b))"
    by (simp add: length_item_cells it1)
  have disj1: "set (enemy_cells ?b1) \<inter> set (item_cells ?b1) = {}"
    using Cons.prems(4) notin(2) by (simp add: it1 en1)
  note on1 = items_on_place[OF Cons.prems(2) free, of i]
  have dims1: "is \<noteq> [] \<longrightarrow> 0 < height ?b1 \<and> 0 < width ?b1" using pos by simp
  from Cons.IH[OF rec wf1 dims1 disj1] len1 en1 on1 show ?case by auto
qed

text \<open>
  Claim C6, as the code has it. Let the board have its \<open>height\<close> rows of \<open>width\<close> squares
  and hold no item before the call, as a board fresh from the constructor does, and let
  \<open>populateBoard\<close> finish on the draws \<open>rs\<close>. Then afterwards no cell holds both an enemy
  and an item; the cells that hold an enemy are as many as before plus one for each
  enemy of the list, and the enemies on the board are those that were there and those of
  the list, so no enemy was put on a cell that held one; and the cells that hold an item
  are as many as the items of the list, and hold exactly those items.
\<close>

theorem populateBoard_no_collision:
  assumes "wf_board b" "item_cells b = []" "populateBoard es is b rs = Some (b', rs')"
  shows "set (enemy_cells b') \<inter> set (item_cells b') = {}
         \<and> length (enemy_cells b') = length (enemy_cells b) + length es
         \<and> mset (enemies_on b') = mset (enemies_on b) + mset es
         \<and> length (item_cells b') = length is
         \<and> mset (items_on b') = mset is"
proof -
  from assms(3) obtain b1 rs1 where
    pe: "place_enemies es b rs = Some (b1, rs1)" and pi: "place_items is b1 rs1 = Some (b', rs')"
    and dims: "es \<noteq> [] \<or> is \<noteq> [] \<longrightarrow> 0 < height b \<and> 0 < width b"
    by (auto simp: populateBoard_def split: if_splits option.splits)
  from place_enemies_inv[OF pe assms(1)] dims
  have e: "wf_board b1" "height b1 = height b" "width b1 = width b"
    "length (enemy_cells b1) = length (enemy_cells b) + length es"
    "set (item_cells b1) = set (item_cells b)"
    "mset (enemies_on b1) = mset (enemies_on b) + mset es"
    "items_on b1 = items_on b"
    by auto
  from e(5) assms(2) have noit: "item_cells b1 = []" by simp
  then have disj: "set (enemy_cells b1) \<inter> set (item_cells b1) = {}" by simp
  from e(7) assms(2) have noon: "items_on b1 = []" by (simp add: items_on_item_cells)
  from place_items_inv[OF pi e(1) _ disj] dims e(2,3)
  have i: "length (item_cells b') = length (item_cells b1) + length is"
    "set (enemy_cells b') = set (enemy_cells b1)"
    "set (enemy_cells b') \<inter> set (item_cells b') = {}"
    "mset (items_on b') = mset (items_on b1) + mset is"
    "enemies_on b' = enemies_on b1"
    by auto
  from i(2) have "length (enemy_cells b') = length (enemy_cells b1)"
    by (simp add: length_enemy_cells)
  with e(4,6) i(1,3,4,5) noit noon show ?thesis by simp
qed

text \<open>
  A run on a fresh board of two rows and two columns: the second enemy and the item each
  draw an occupied cell first and are placed on their second draw.
\<close>

theorem populateBoard_no_collision_witness:
  "populateBoard [1, 2] [Sword] (Board_new 2 2) [0, 0, 0, 0, 1, 1, 0, 0, 1, 0]
     = Some (\<lparr>width = 2, height = 2,
         grid = [ [\<lparr>enemy = Some 1, item = None, player = None\<rparr>,
                  \<lparr>enemy = None, item = None, player = None\<rparr>],
                 [\<lparr>enemy = None, item = Some Sword, player = None\<rparr>,
                  \<lparr>enemy = Some 2, item = None, player = None\<rparr>] ]\<rparr>, [])
   \<and> set (enemy_cells \<lparr>width = 2, height = 2,
         grid = [ [\<lparr>enemy = Some 1, item = None, player = None\<rparr>,
                  \<lparr>enemy = None, item = None, player = None\<rparr>],
                 [\<lparr>enemy = None, item = Some Sword, player = None\<rparr>,
                  \<lparr>enemy = Some 2, item = None, player = None\<rparr>] ]\<rparr>)
       \<inter> set (item_cells \<lparr>width = 2, height = 2,
         grid = [ [\<lparr>enemy = Some 1, item = None, player = None\<rparr>,
                  \<lparr>enemy = None, item = None, player = None\<rparr>],
                 [\<lparr>enemy = None, item = Some Sword, player = None\<rparr>,
                  \<lparr>enemy = Some 2, item = None, player = None\<rparr>] ]\<rparr>) = {}"
proof -
  have run: "populateBoard [1, 2] [Sword] (Board_new 2 2) [0, 0, 0, 0, 1, 1, 0, 0, 1, 0]
     = Some (\<lparr>width = 2, height = 2,
         grid = [ [\<lparr>enemy = Some 1, item = None, player = None\<rparr>,
                  \<lparr>enemy = None, item = None, player = None\<rparr>],
                 [\<lparr>enemy = None, item = Some Sword, player = None\<rparr>,
                  \<lparr>enemy = Some 2, item = None, player = None\<rparr>] ]\<rparr>, [])"
    by (simp add: populateBoard_def Board_new_def cell_def set_cell_def numeral_2_eq_2
        enemy_retry.simps item_retry.simps)
  from populateBoard_no_collision[OF wf_Board_new item_cells_Board_new run] run
  show ?thesis by simp
qed

text \<open>
  The claim as stated, for every board, fails on a board that already holds an item. A
  first call places the Sword on the one cell of a board of one row and one column; a
  second call on that board places an enemy: its loop tests the enemy pointer only, and
  the enemy lands on the cell of the Sword.
\<close>

theorem populateBoard_twice_counterexample:
  "populateBoard [] [Sword] (Board_new 1 1) [0, 0]
     = Some (\<lparr>width = 1, height = 1,
              grid = [ [\<lparr>enemy = None, item = Some Sword, player = None\<rparr>] ]\<rparr>, [])
   \<and> populateBoard [1] []
       \<lparr>width = 1, height = 1, grid = [ [\<lparr>enemy = None, item = Some Sword, player = None\<rparr>] ]\<rparr>
       [0, 0]
     = Some (\<lparr>width = 1, height = 1,
              grid = [ [\<lparr>enemy = Some 1, item = Some Sword, player = None\<rparr>] ]\<rparr>, [])
   \<and> enemy (cell \<lparr>width = 1, height = 1,
              grid = [ [\<lparr>enemy = Some 1, item = Some Sword, player = None\<rparr>] ]\<rparr> 0 0) = Some 1
   \<and> item (cell \<lparr>width = 1, height = 1,
              grid = [ [\<lparr>enemy = Some 1, item = Some Sword, player = None\<rparr>] ]\<rparr> 0 0) = Some Sword"
  by (simp add: populateBoard_def Board_new_def cell_def set_cell_def
      enemy_retry.simps item_retry.simps)

section \<open>Day and night\<close>

lemma setTimeOfDay_idem: "setTimeOfDay night (setTimeOfDay night ch) = setTimeOfDay night ch"
  by (simp add: setTimeOfDay_def Let_def)

lemma race_setTimeOfDay: "race (setTimeOfDay night ch) = race ch"
  by (simp add: setTimeOfDay_def Let_def)

lemma quadruple_setTimeOfDay:
  "quadruple (setTimeOfDay night ch)
     = (if night then (45, 1, 25, 1 / 2) else (25, 1 / 4, 10, 1 / 4))"
  "isNight (setTimeOfDay night ch) = night"
  by (simp_all add: setTimeOfDay_def quadruple_def Let_def)

text \<open>One visit of a square, then a row of visits, then all rows.\<close>

lemma orc_update_other:
  "enemy (cell b r c) \<noteq> Some q \<Longrightarrow> orc_update night b r c st q = st q"
  by (auto simp: orc_update_def split: option.splits)

lemma orc_update_pending:
  "race ch = Orc \<Longrightarrow> orc_pending night ch q st
   \<Longrightarrow> orc_pending night ch q (orc_update night b r c st)"
  by (auto simp: orc_pending_def orc_update_def setTimeOfDay_idem race_setTimeOfDay
      split: option.splits)

lemma orc_update_updated:
  "race ch = Orc \<Longrightarrow> orc_updated night ch q st
   \<Longrightarrow> orc_updated night ch q (orc_update night b r c st)"
  by (auto simp: orc_updated_def orc_update_def setTimeOfDay_idem race_setTimeOfDay
      split: option.splits)

lemma orc_update_hit:
  "race ch = Orc \<Longrightarrow> orc_pending night ch q st \<Longrightarrow> enemy (cell b r c) = Some q
   \<Longrightarrow> orc_updated night ch q (orc_update night b r c st)"
  by (auto simp: orc_pending_def orc_updated_def orc_update_def setTimeOfDay_idem
      race_setTimeOfDay split: option.splits)

lemma row_other:
  "\<forall>c\<in>set cs. enemy (cell b r c) \<noteq> Some q
   \<Longrightarrow> fold (\<lambda>c. orc_update night b r c) cs st q = st q"
  by (induction cs arbitrary: st) (simp_all add: orc_update_other)

lemma row_pending:
  "race ch = Orc \<Longrightarrow> orc_pending night ch q st
   \<Longrightarrow> orc_pending night ch q (fold (\<lambda>c. orc_update night b r c) cs st)"
  by (induction cs arbitrary: st) (simp_all add: orc_update_pending)

lemma row_updated:
  "race ch = Orc \<Longrightarrow> orc_updated night ch q st
   \<Longrightarrow> orc_updated night ch q (fold (\<lambda>c. orc_update night b r c) cs st)"
  by (induction cs arbitrary: st) (simp_all add: orc_update_updated)

lemma row_hit:
  "race ch = Orc \<Longrightarrow> orc_pending night ch q st \<Longrightarrow> c \<in> set cs
   \<Longrightarrow> enemy (cell b r c) = Some q
   \<Longrightarrow> orc_updated night ch q (fold (\<lambda>c. orc_update night b r c) cs st)"
proof (induction cs arbitrary: st)
  case Nil
  then show ?case by simp
next
  case (Cons c' cs)
  show ?case
  proof (cases "c' = c")
    case True
    with Cons.prems show ?thesis by (simp add: row_updated orc_update_hit)
  next
    case False
    with Cons.prems Cons.IH show ?thesis by (simp add: orc_update_pending)
  qed
qed

lemma rows_other:
  "\<forall>r\<in>set rs. \<forall>c\<in>set cs. enemy (cell b r c) \<noteq> Some q
   \<Longrightarrow> fold (\<lambda>r. fold (\<lambda>c. orc_update night b r c) cs) rs st q = st q"
  by (induction rs arbitrary: st) (simp_all add: row_other)

lemma rows_updated:
  "race ch = Orc \<Longrightarrow> orc_updated night ch q st
   \<Longrightarrow> orc_updated night ch q (fold (\<lambda>r. fold (\<lambda>c. orc_update night b r c) cs) rs st)"
  by (induction rs arbitrary: st) (simp_all add: row_updated)

lemma rows_hit:
  "race ch = Orc \<Longrightarrow> orc_pending night ch q st \<Longrightarrow> r \<in> set rs \<Longrightarrow> c \<in> set cs
   \<Longrightarrow> enemy (cell b r c) = Some q
   \<Longrightarrow> orc_updated night ch q (fold (\<lambda>r. fold (\<lambda>c. orc_update night b r c) cs) rs st)"
proof (induction rs arbitrary: st)
  case Nil
  then show ?case by simp
next
  case (Cons r' rs)
  show ?case
  proof (cases "r' = r")
    case True
    with Cons.prems show ?thesis by (simp add: rows_updated row_hit)
  next
    case False
    with Cons.prems Cons.IH show ?thesis by (simp add: row_pending)
  qed
qed

text \<open>
  After the loops, an Orc that the enemy pointer of some square refers to has the stats
  of the new time of day, and an object that the enemy pointer of no square refers to is
  as it was.
\<close>

lemma orcs_setTimeOfDay_enemy:
  assumes "r < height b" "c < width b" "enemy (cell b r c) = Some q"
    "st q = Some ch" "race ch = Orc"
  shows "orcs_setTimeOfDay night b st q = Some (setTimeOfDay night ch)"
proof -
  have "orc_pending night ch q st" using assms(4) by (simp add: orc_pending_def)
  from rows_hit[OF assms(5) this _ _ assms(3), of "[0..<height b]" "[0..<width b]"] assms(1,2)
  show ?thesis by (simp add: orcs_setTimeOfDay_def orc_updated_def)
qed

lemma orcs_setTimeOfDay_other:
  assumes "\<forall>r<height b. \<forall>c<width b. enemy (cell b r c) \<noteq> Some q"
  shows "orcs_setTimeOfDay night b st q = st q"
  using assms by (simp add: orcs_setTimeOfDay_def rows_other)

text \<open>
  The block as a whole. An Orc on an enemy pointer whose stats match the flag before the
  block has stats that match the flag after it, flip or no flip; the object of a
  pointer that is on no enemy slot, as the player's is, is never written.
\<close>

lemma dayNightCycle_enemy_orc:
  assumes "r < height b" "c < width b" "enemy (cell b r c) = Some q"
    "st q = Some ch" "race ch = Orc"
    "quadruple ch = (if night then (45, 1, 25, 1 / 2) else (25, 1 / 4, 10, 1 / 4))"
  shows "map_option quadruple (snd (dayNightCycle cnt night b st) q)
           = Some (if fst (dayNightCycle cnt night b st) then (45, 1, 25, 1 / 2)
                   else (25, 1 / 4, 10, 1 / 4))"
  using assms(4,6) orcs_setTimeOfDay_enemy[where st = st and q = q, OF assms(1-5)]
  by (simp add: dayNightCycle_def quadruple_setTimeOfDay)

lemma dayNightCycle_other:
  assumes "\<forall>r<height b. \<forall>c<width b. enemy (cell b r c) \<noteq> Some q"
  shows "snd (dayNightCycle cnt night b st) q = st q"
  using orcs_setTimeOfDay_other[OF assms] by (simp add: dayNightCycle_def)

text \<open>
  Claim C9. The code when the player is an Orc. The game starts by day; the player looks
  at the square five times. The fifth command brings the count to 5 and the flag flips
  to night. Azog, the Orc on the enemy pointer of row 2, column 1, then has the night
  stats. The player, an Orc too and on the player pointer of row 0, column 0, still has
  the day stats and \<open>isNight\<close> false: the loops read the enemy pointers only.
\<close>

theorem player_orc_keeps_day_stats:
  "commandCount five_looks = 5 \<and> isNight_main five_looks
   \<and> enemy (cell (board five_looks) 2 1) = Some 5
   \<and> map_option race (objects five_looks 5) = Some Orc
   \<and> map_option quadruple (objects five_looks 5) = Some (45, 1, 25, 1 / 2)
   \<and> player (cell (board five_looks) 0 0) = Some 0
   \<and> map_option race (objects five_looks 0) = Some Orc
   \<and> map_option quadruple (objects five_looks 0) = Some (25, 1 / 4, 10, 1 / 4)
   \<and> map_option isNight (objects five_looks 0) = Some False"
  by code_simp

end
